theory Spec2Isabelle
  imports Main "HOL-Library.AList"
begin

section \<open>Strings, paths and exceptions\<close>

text \<open>
  The pipeline of \<^verbatim>\<open>tapas/dataset.py\<close> and \<^verbatim>\<open>tapas/pipeline.py\<close> works on URLs, on
  paths of the local file system and on the files below them. A Python \<^verbatim>\<open>str\<close> that
  the program is given (a URL, the name of an archive entry, a path component) is a
  \<^typ>\<open>string\<close>, each character a code point below 256. A text that the program computes
  from decoded bytes can hold any code point and is a list of code points, \<open>ustring\<close>;
  \<open>text_of\<close> embeds a string. A \<^verbatim>\<open>pathlib.Path\<close> is the list of its components below the
  root, so that \<^verbatim>\<open>p / "Data"\<close> is \<open>p @ [''Data'']\<close>.
\<close>

type_synonym path = "string list"

text \<open>An exception is its class and the text \<^verbatim>\<open>str(e)\<close> that the handlers log.\<close>

datatype error =
    ValueError string
  | FileNotFoundError string
  | FileExistsError string
  | NotADirectoryError string
  | IsADirectoryError string
  | OSError string
  | BadZipFile string
  | ParserError string
  | ConnectionError string
  | HTTPError string
  | IndexError string

fun str_error :: "error \<Rightarrow> string" where
  "str_error (ValueError m) = m"
| "str_error (FileNotFoundError m) = m"
| "str_error (FileExistsError m) = m"
| "str_error (NotADirectoryError m) = m"
| "str_error (IsADirectoryError m) = m"
| "str_error (OSError m) = m"
| "str_error (BadZipFile m) = m"
| "str_error (ParserError m) = m"
| "str_error (ConnectionError m) = m"
| "str_error (HTTPError m) = m"
| "str_error (IndexError m) = m"

text \<open>\<^verbatim>\<open>str(path)\<close>, \<^verbatim>\<open>path.name\<close> and \<^verbatim>\<open>path.parent\<close>.\<close>

definition str_path :: "path \<Rightarrow> string" where
  "str_path p = (if p = [] then ''/'' else concat (map (\<lambda>c. ''/'' @ c) p))"

definition path_name :: "path \<Rightarrow> string" where
  "path_name p = (if p = [] then [] else last p)"

definition path_parent :: "path \<Rightarrow> path" where
  "path_parent p = butlast p"

text \<open>\<^verbatim>\<open>s.startswith(t)\<close>, \<^verbatim>\<open>s.endswith(t)\<close> and \<^verbatim>\<open>s.split(sep)\<close> for a one-character separator.\<close>

definition startswith :: "string \<Rightarrow> string \<Rightarrow> bool" where
  "startswith s t = (take (length t) s = t)"

definition endswith :: "string \<Rightarrow> string \<Rightarrow> bool" where
  "endswith s t = (length t \<le> length s \<and> drop (length s - length t) s = t)"

fun split_sep :: "char \<Rightarrow> string \<Rightarrow> string list" where
  "split_sep sep [] = [[]]"
| "split_sep sep (c # cs) =
     (if c = sep then [] # split_sep sep cs
      else (case split_sep sep cs of
              [] \<Rightarrow> [[c]]
            | w # ws \<Rightarrow> (c # w) # ws))"

text \<open>\<^verbatim>\<open>s.split(sep, 1)\<close>: the text before the first separator and the text after it, if any.\<close>

definition split_once :: "char \<Rightarrow> string \<Rightarrow> string \<times> string option" where
  "split_once sep s =
     (if sep \<in> set s then (takeWhile (\<lambda>c. c \<noteq> sep) s, Some (tl (dropWhile (\<lambda>c. c \<noteq> sep) s)))
      else (s, None))"

definition is_digit :: "char \<Rightarrow> bool" where
  "is_digit c = (c \<in> set ''0123456789'')"

text \<open>\<^verbatim>\<open>str(n)\<close> of a natural number, for the counts and shapes that are logged and written.\<close>

definition digit_char :: "nat \<Rightarrow> char" where
  "digit_char d = ''0123456789'' ! (d mod 10)"

fun str_nat :: "nat \<Rightarrow> string" where
  "str_nat n = (if n < 10 then [digit_char n] else str_nat (n div 10) @ [digit_char (n mod 10)])"

declare str_nat.simps [simp del]

type_synonym ustring = "int list"

definition text_of :: "string \<Rightarrow> ustring" where
  "text_of s = map of_char s"

section \<open>The standard library on URLs\<close>

text \<open>
  \<^verbatim>\<open>urllib.parse.unquote\<close> returns a text without \<^verbatim>\<open>%\<close> as it is. Otherwise every run of
  ASCII characters is turned into bytes, each \<^verbatim>\<open>%XX\<close> with two hexadecimal digits giving the
  byte of that code and any other character its own, and the bytes are decoded as UTF-8
  with \<^verbatim>\<open>errors='replace'\<close>; the characters outside ASCII stay.
\<close>

definition hex_val :: "char \<Rightarrow> int option" where
  "hex_val c = map_of (zip ''0123456789abcdefABCDEF''
     [0, 1, 2, 3, 4, 5, 6, 7, 8, 9, 10, 11, 12, 13, 14, 15, 10, 11, 12, 13, 14, 15]) c"

fun unquote_to_bytes :: "string \<Rightarrow> int list" where
  "unquote_to_bytes (c # a # b # rest) =
     (case (c = CHR ''%'', hex_val a, hex_val b) of
        (True, Some h, Some l) \<Rightarrow> (16 * h + l) # unquote_to_bytes rest
      | _ \<Rightarrow> of_char c # unquote_to_bytes (a # b # rest))"
| "unquote_to_bytes cs = map of_char cs"

text \<open>
  \<^verbatim>\<open>bytes.decode('utf-8', 'replace')\<close>: a well-formed sequence gives its code point; an
  ill-formed one is replaced by U+FFFD up to the byte that breaks it, and that byte starts
  the next sequence; a sequence that the end of the input cuts short is replaced by one
  U+FFFD. The second byte of a sequence that starts with E0, ED, F0 or F4 has a narrower
  range, which excludes overlong forms, surrogates and code points above U+10FFFF.
\<close>

definition is_cont :: "int \<Rightarrow> bool" where
  "is_cont b = (128 \<le> b \<and> b < 192)"

definition second_ok :: "int \<Rightarrow> int \<Rightarrow> bool" where
  "second_ok b c =
     (is_cont c
      \<and> (b = 224 \<longrightarrow> 160 \<le> c) \<and> (b = 237 \<longrightarrow> c < 160)
      \<and> (b = 240 \<longrightarrow> 144 \<le> c) \<and> (b = 244 \<longrightarrow> c < 144))"

definition replacement :: int where
  "replacement = 65533"

fun utf8_replace :: "int list \<Rightarrow> ustring" where
  "utf8_replace [] = []"
| "utf8_replace (b # bs) =
     (if b < 128 then b # utf8_replace bs
      else if b < 194 \<or> 245 \<le> b then replacement # utf8_replace bs
      else (case bs of
              [] \<Rightarrow> [replacement]
            | c # cs \<Rightarrow>
                if \<not> second_ok b c then replacement # utf8_replace bs
                else if b < 224 then ((b - 192) * 64 + (c - 128)) # utf8_replace cs
                else (case cs of
                        [] \<Rightarrow> [replacement]
                      | d # ds \<Rightarrow>
                          if \<not> is_cont d then replacement # utf8_replace cs
                          else if b < 240
                          then ((b - 224) * 4096 + (c - 128) * 64 + (d - 128)) # utf8_replace ds
                          else (case ds of
                                  [] \<Rightarrow> [replacement]
                                | e # es \<Rightarrow>
                                    if \<not> is_cont e then replacement # utf8_replace ds
                                    else ((b - 240) * 262144 + (c - 128) * 4096
                                            + (d - 128) * 64 + (e - 128))
                                         # utf8_replace es))))"

definition is_ascii :: "char \<Rightarrow> bool" where
  "is_ascii c = (of_char c < (128::int))"

fun unquote_parts :: "string \<Rightarrow> string \<Rightarrow> ustring" where
  "unquote_parts run [] = utf8_replace (unquote_to_bytes run)"
| "unquote_parts run (c # cs) =
     (if is_ascii c then unquote_parts (run @ [c]) cs
      else utf8_replace (unquote_to_bytes run) @ of_char c # unquote_parts [] cs)"

definition unquote :: "string \<Rightarrow> ustring" where
  "unquote s = (if CHR ''%'' \<in> set s then unquote_parts [] s else text_of s)"

text \<open>
  \<^verbatim>\<open>urllib.parse.parse_qsl(qs)\<close> with its defaults (separator \<^verbatim>\<open>&\<close>, blank values dropped,
  no strict parsing): the fields are split at \<^verbatim>\<open>&\<close>, each at its first \<^verbatim>\<open>=\<close>; a field with
  no \<^verbatim>\<open>=\<close> or with nothing after it is skipped; in name and value \<^verbatim>\<open>+\<close> becomes a space and
  percent escapes are decoded.
\<close>

definition plus_to_space :: "string \<Rightarrow> string" where
  "plus_to_space s = map (\<lambda>c. if c = CHR ''+'' then CHR '' '' else c) s"

definition parse_field :: "string \<Rightarrow> (ustring \<times> ustring) option" where
  "parse_field name_value =
     (case split_once CHR ''='' name_value of
        (n, None) \<Rightarrow> None
      | (n, Some v) \<Rightarrow>
          if v = [] then None
          else Some (unquote (plus_to_space n), unquote (plus_to_space v)))"

definition parse_qsl :: "string \<Rightarrow> (ustring \<times> ustring) list" where
  "parse_qsl qs = (if qs = [] then [] else List.map_filter parse_field (split_sep CHR ''&'' qs))"

text \<open>
  \<^verbatim>\<open>parse_qs(qs)\<close> is the dictionary from each name to the list of its values, in the order
  of the fields.
\<close>

definition parse_qs :: "string \<Rightarrow> (ustring \<rightharpoonup> ustring list)" where
  "parse_qs qs k =
     (let vs = map snd (filter (\<lambda>nv. fst nv = k) (parse_qsl qs))
      in if vs = [] then None else Some vs)"

text \<open>
  \<^verbatim>\<open>urlparse(url).query\<close>. The library removes tabs and line breaks from the URL and
  leading control characters and spaces, splits off a scheme and, after \<^verbatim>\<open>//\<close>, the network
  location up to the first of \<^verbatim>\<open>/ ? #\<close>; the fragment is what follows the first \<^verbatim>\<open>#\<close> of
  the rest, and the query what follows the first \<^verbatim>\<open>?\<close> before it. \<^verbatim>\<open>urlparse\<close> raises
  \<^verbatim>\<open>ValueError\<close> when the network location has one square bracket without the other, and,
  depending on the version of the library, when the host between the brackets is not an
  address it accepts: that check is the parameter \<open>host_ok\<close>.
\<close>

definition scheme_chars :: "char set" where
  "scheme_chars = set ''abcdefghijklmnopqrstuvwxyzABCDEFGHIJKLMNOPQRSTUVWXYZ0123456789+-.''"

definition is_alpha :: "char \<Rightarrow> bool" where
  "is_alpha c = (c \<in> set ''abcdefghijklmnopqrstuvwxyzABCDEFGHIJKLMNOPQRSTUVWXYZ'')"

definition strip_scheme :: "string \<Rightarrow> string" where
  "strip_scheme url =
     (let pre = takeWhile (\<lambda>c. c \<noteq> CHR '':'') url in
      if CHR '':'' \<in> set url \<and> pre \<noteq> [] \<and> is_alpha (hd url) \<and> (\<forall>c \<in> set pre. c \<in> scheme_chars)
      then tl (dropWhile (\<lambda>c. c \<noteq> CHR '':'') url)
      else url)"

definition is_netloc_end :: "char \<Rightarrow> bool" where
  "is_netloc_end c = (c \<in> set ''/?#'')"

definition split_netloc :: "string \<Rightarrow> string \<times> string" where
  "split_netloc url =
     (if take 2 url = ''//''
      then (takeWhile (\<lambda>c. \<not> is_netloc_end c) (drop 2 url),
            dropWhile (\<lambda>c. \<not> is_netloc_end c) (drop 2 url))
      else ([], url))"

definition bracketed_host :: "string \<Rightarrow> string" where
  "bracketed_host netloc =
     takeWhile (\<lambda>c. c \<noteq> CHR '']'') (tl (dropWhile (\<lambda>c. c \<noteq> CHR ''['') netloc))"

definition is_c0_or_space :: "char \<Rightarrow> bool" where
  "is_c0_or_space c = (of_char c \<le> (32::nat))"

definition is_unsafe_byte :: "char \<Rightarrow> bool" where
  "is_unsafe_byte c = (of_char c \<in> {9, 10, 13::nat})"

definition query_of :: "string \<Rightarrow> string" where
  "query_of s =
     (case snd (split_once CHR ''?'' (fst (split_once CHR ''#'' s))) of
        None \<Rightarrow> []
      | Some q \<Rightarrow> q)"

definition urlparse_query :: "(string \<Rightarrow> bool) \<Rightarrow> string \<Rightarrow> error + string" where
  "urlparse_query host_ok url0 =
     (let url = filter (\<lambda>c. \<not> is_unsafe_byte c) (dropWhile is_c0_or_space url0);
          (netloc, rest) = split_netloc (strip_scheme url);
          lb = (CHR ''['' \<in> set netloc);
          rb = (CHR '']'' \<in> set netloc)
      in if lb \<noteq> rb then Inl (ValueError ''Invalid IPv6 URL'')
         else if lb \<and> rb \<and> \<not> host_ok (bracketed_host netloc)
         then Inl (ValueError ''Invalid IPv6 URL'')
         else Inr (query_of rest))"

text \<open>
  \<^verbatim>\<open>re.search(r"/files/(\d+)", url)\<close>: the leftmost place where \<^verbatim>\<open>/files/\<close> is followed by
  a digit, and there the longest run of digits, as group 1.
\<close>

fun re_search_files :: "string \<Rightarrow> string option" where
  "re_search_files [] = None"
| "re_search_files (c # cs) =
     (if take 7 (c # cs) = ''/files/'' \<and> takeWhile is_digit (drop 7 (c # cs)) \<noteq> []
      then Some (takeWhile is_digit (drop 7 (c # cs)))
      else re_search_files cs)"

section \<open>The world: file system, remote server, log\<close>

text \<open>
  What a file holds is modelled by what the libraries read from it: a CSV text by the table
  that \<^verbatim>\<open>pandas.read_csv\<close> loads from it (column labels and data rows), a zip archive by
  the list of its entries (name and payload, in the order of \<^verbatim>\<open>namelist()\<close>; the name of a
  directory entry ends with \<^verbatim>\<open>/\<close>), and any other bytes, which neither library reads, as
  a blob.
\<close>

datatype content =
    Blob string
  | Table "string list" "string list list"
  | Archive "(string \<times> content) list"

datatype node = Dir | File content

text \<open>
  The file system lists its nodes by path; the root is a directory and is not listed. The
  order of the list is the order in which a directory is enumerated.
\<close>

type_synonym file_system = "(path \<times> node) list"

definition node_at :: "file_system \<Rightarrow> path \<Rightarrow> node option" where
  "node_at fsys p = (if p = [] then Some Dir else map_of fsys p)"

definition path_exists :: "file_system \<Rightarrow> path \<Rightarrow> bool" where
  "path_exists fsys p = (node_at fsys p \<noteq> None)"

definition is_dir :: "file_system \<Rightarrow> path \<Rightarrow> bool" where
  "is_dir fsys p = (node_at fsys p = Some Dir)"

definition fs_put :: "file_system \<Rightarrow> path \<Rightarrow> node \<Rightarrow> file_system" where
  "fs_put fsys p n = AList.update p n fsys"

text \<open>
  \<^verbatim>\<open>Path.mkdir(parents=True, exist_ok=True)\<close> and \<^verbatim>\<open>os.makedirs(p, exist_ok=True)\<close>: every
  missing component is created, from the root down; a component that is a file is an error.
\<close>

fun mkdir_from :: "path \<Rightarrow> string list \<Rightarrow> file_system \<Rightarrow> error + file_system" where
  "mkdir_from base [] fsys = Inr fsys"
| "mkdir_from base (c # cs) fsys =
     (case node_at fsys (base @ [c]) of
        Some Dir \<Rightarrow> mkdir_from (base @ [c]) cs fsys
      | Some (File x) \<Rightarrow>
          Inl (if cs = [] then FileExistsError (str_path (base @ [c]))
               else NotADirectoryError (str_path (base @ c # cs)))
      | None \<Rightarrow> mkdir_from (base @ [c]) cs (fs_put fsys (base @ [c]) Dir))"

definition mkdir_parents :: "file_system \<Rightarrow> path \<Rightarrow> error + file_system" where
  "mkdir_parents fsys p = mkdir_from [] p fsys"

text \<open>\<^verbatim>\<open>open(p, "wb")\<close> followed by writing the whole payload.\<close>

definition open_write :: "file_system \<Rightarrow> path \<Rightarrow> content \<Rightarrow> error + file_system" where
  "open_write fsys p c =
     (if is_dir fsys p then Inl (IsADirectoryError (str_path p))
      else (case node_at fsys (path_parent p) of
              None \<Rightarrow> Inl (FileNotFoundError (str_path p))
            | Some (File x) \<Rightarrow> Inl (NotADirectoryError (str_path p))
            | Some Dir \<Rightarrow> Inr (fs_put fsys p (File c))))"

text \<open>
  The answer of the server to a GET: the status, the \<^verbatim>\<open>content-length\<close> header (absent, a
  numeral, or a text that \<^verbatim>\<open>int()\<close> rejects) and the body.
\<close>

datatype header_value = Absent | Numeric nat | Malformed string

record response =
  status_code :: nat
  content_length :: header_value
  body :: content

datatype level = INFO | SUCCESS | WARNING | ERROR

text \<open>
  The world that the pipeline acts on: the file system, the answer of the remote server to
  each URL (\<open>None\<close>: no connection), the GET requests issued so far, and the log. A URL
  that is requested and a line of the log can hold the decoded identifier, so both are
  texts.
\<close>

record world =
  fs :: file_system
  remote :: "ustring \<Rightarrow> response option"
  requests :: "ustring list"
  logs :: "(level \<times> ustring) list"

definition log_text :: "level \<Rightarrow> ustring \<Rightarrow> world \<Rightarrow> world" where
  "log_text l m w = w\<lparr>logs := logs w @ [(l, m)]\<rparr>"

definition log_msg :: "level \<Rightarrow> string \<Rightarrow> world \<Rightarrow> world" where
  "log_msg l m w = log_text l (text_of m) w"

section \<open>The fetcher\<close>

text \<open>
  Lines 36 to 48 of \<^verbatim>\<open>download_from_figshare\<close>: the file identifier is the first value of
  the query parameter \<^verbatim>\<open>file\<close>; only when the parsed query has no such key is the pattern
  \<^verbatim>\<open>/files/(\d+)\<close> searched in the URL; when that fails too, \<^verbatim>\<open>ValueError\<close> is raised.
\<close>

definition file_id_of_url :: "(string \<Rightarrow> bool) \<Rightarrow> string \<Rightarrow> error + ustring" where
  "file_id_of_url host_ok url =
     (case urlparse_query host_ok url of
        Inl e \<Rightarrow> Inl e
      | Inr query \<Rightarrow>
          (case parse_qs query (text_of ''file'') of
             None \<Rightarrow>
               (case re_search_files url of
                  Some g \<Rightarrow> Inr (text_of g)
                | None \<Rightarrow> Inl (ValueError (''Could not extract file ID from URL: '' @ url)))
           | Some [] \<Rightarrow> Inl (IndexError ''list index out of range'')
           | Some (v # vs) \<Rightarrow> Inr v))"

text \<open>
  \<^verbatim>\<open>download_from_figshare(url, output_path)\<close>: the outcome (an exception or \<open>None\<close>) and the
  world it leaves. The GET is recorded before its answer is looked at.
\<close>

definition download_from_figshare ::
  "(string \<Rightarrow> bool) \<Rightarrow> string \<Rightarrow> path \<Rightarrow> world \<Rightarrow> (error + unit) \<times> world" where
  "download_from_figshare host_ok url output_path w =
     (case file_id_of_url host_ok url of
        Inl e \<Rightarrow> (Inl e, w)
      | Inr file_id \<Rightarrow>
          (let w1 = log_text INFO
                      (text_of ''Downloading file ID '' @ file_id @ text_of '' from figshare...'') w;
               download_url = text_of ''https://ndownloader.figshare.com/files/'' @ file_id;
               w2 = w1\<lparr>requests := requests w1 @ [download_url]\<rparr>
           in case remote w2 download_url of
                None \<Rightarrow> (Inl (ConnectionError ''Connection failed''), w2)
              | Some r \<Rightarrow>
                  if 400 \<le> status_code r \<and> status_code r < 600
                  then (Inl (HTTPError (str_nat (status_code r))), w2)
                  else (case content_length r of
                          Malformed s \<Rightarrow>
                            (Inl (ValueError (''invalid literal for int() with base 10: '' @ s)), w2)
                        | _ \<Rightarrow>
                            (case mkdir_parents (fs w2) (path_parent output_path) of
                               Inl e \<Rightarrow> (Inl e, w2)
                             | Inr fs3 \<Rightarrow>
                                 (case open_write fs3 output_path (body r) of
                                    Inl e \<Rightarrow> (Inl e, w2\<lparr>fs := fs3\<rparr>)
                                  | Inr fs4 \<Rightarrow>
                                      (Inr (),
                                       log_msg SUCCESS
                                         (''Downloaded '' @ path_name output_path @ '' to ''
                                            @ str_path (path_parent output_path))
                                         (w2\<lparr>fs := fs4\<rparr>)))))))"

section \<open>The libraries on files\<close>

text \<open>
  \<^verbatim>\<open>os.mkdir(p)\<close>, as \<^verbatim>\<open>ZipFile.extract\<close> calls it for a directory entry.
\<close>

definition os_mkdir :: "file_system \<Rightarrow> path \<Rightarrow> error + file_system" where
  "os_mkdir fsys p =
     (if path_exists fsys p then Inl (FileExistsError (str_path p))
      else (case node_at fsys (path_parent p) of
              None \<Rightarrow> Inl (FileNotFoundError (str_path p))
            | Some (File x) \<Rightarrow> Inl (NotADirectoryError (str_path p))
            | Some Dir \<Rightarrow> Inr (fs_put fsys p Dir)))"

text \<open>
  \<^verbatim>\<open>pandas\<close>: a frame is its column labels and its rows; \<^verbatim>\<open>df.shape\<close> counts rows, then
  columns. \<^verbatim>\<open>read_csv\<close> loads the table of a CSV file and raises on anything else.
  \<^verbatim>\<open>df.to_csv(path, index=...)\<close> refuses a path whose parent is not a directory, then opens
  the file for writing; with \<^verbatim>\<open>index=True\<close> the row numbers are written as a first column
  with an empty label.
\<close>

record data_frame =
  df_columns :: "string list"
  df_rows :: "string list list"

definition df_shape :: "data_frame \<Rightarrow> nat \<times> nat" where
  "df_shape df = (length (df_rows df), length (df_columns df))"

definition read_csv :: "file_system \<Rightarrow> path \<Rightarrow> error + data_frame" where
  "read_csv fsys p =
     (case node_at fsys p of
        None \<Rightarrow> Inl (FileNotFoundError (str_path p))
      | Some Dir \<Rightarrow> Inl (IsADirectoryError (str_path p))
      | Some (File (Table h rs)) \<Rightarrow> Inr \<lparr>df_columns = h, df_rows = rs\<rparr>
      | Some (File (Blob b)) \<Rightarrow> Inl (ParserError (str_path p))
      | Some (File (Archive es)) \<Rightarrow> Inl (ParserError (str_path p)))"

definition csv_of_frame :: "data_frame \<Rightarrow> bool \<Rightarrow> content" where
  "csv_of_frame df index =
     (if index
      then Table ([] # df_columns df) (map (\<lambda>(i, r). str_nat i # r) (enumerate 0 (df_rows df)))
      else Table (df_columns df) (df_rows df))"

definition to_csv :: "file_system \<Rightarrow> data_frame \<Rightarrow> path \<Rightarrow> bool \<Rightarrow> error + file_system" where
  "to_csv fsys df p index =
     (if \<not> is_dir fsys (path_parent p)
      then Inl (OSError (''Cannot save file into a non-existent directory: ''
                  @ str_path (path_parent p)))
      else open_write fsys p (csv_of_frame df index))"

text \<open>
  \<^verbatim>\<open>zipfile.ZipFile(p, "r")\<close> reads the entries of an archive. \<^verbatim>\<open>zip_ref.extract(name, dest)\<close>
  takes the last entry of that name, drops the empty, \<^verbatim>\<open>.\<close> and \<^verbatim>\<open>..\<close> components of the
  name, creates the missing directories above the target and then makes the directory or
  writes the file. It returns the exception, if any, with the file system it leaves.
\<close>

definition zip_open :: "file_system \<Rightarrow> path \<Rightarrow> error + (string \<times> content) list" where
  "zip_open fsys p =
     (case node_at fsys p of
        None \<Rightarrow> Inl (FileNotFoundError (str_path p))
      | Some Dir \<Rightarrow> Inl (IsADirectoryError (str_path p))
      | Some (File (Archive es)) \<Rightarrow> Inr es
      | Some (File (Blob b)) \<Rightarrow> Inl (BadZipFile ''File is not a zip file'')
      | Some (File (Table h rs)) \<Rightarrow> Inl (BadZipFile ''File is not a zip file''))"

definition arc_parts :: "string \<Rightarrow> string list" where
  "arc_parts name = filter (\<lambda>x. x \<noteq> [] \<and> x \<noteq> ''.'' \<and> x \<noteq> ''..'') (split_sep CHR ''/'' name)"

definition zip_getinfo :: "(string \<times> content) list \<Rightarrow> string \<Rightarrow> content option" where
  "zip_getinfo entries name = map_of (rev entries) name"

definition zip_extract ::
  "(string \<times> content) list \<Rightarrow> string \<Rightarrow> path \<Rightarrow> file_system \<Rightarrow> error option \<times> file_system" where
  "zip_extract entries name dest fsys =
     (case zip_getinfo entries name of
        None \<Rightarrow> (Some (ValueError (''There is no item named '' @ name @ '' in the archive'')), fsys)
      | Some payload \<Rightarrow>
          (let target = dest @ arc_parts name;
               upperdirs = path_parent target
           in case (if path_exists fsys upperdirs then Inr fsys else mkdir_parents fsys upperdirs) of
                Inl e \<Rightarrow> (Some e, fsys)
              | Inr fs1 \<Rightarrow>
                  if endswith name ''/''
                  then (if is_dir fs1 target then (None, fs1)
                        else (case os_mkdir fs1 target of
                                Inl e \<Rightarrow> (Some e, fs1)
                              | Inr fs2 \<Rightarrow> (None, fs2)))
                  else (case open_write fs1 target payload of
                          Inl e \<Rightarrow> (Some e, fs1)
                        | Inr fs2 \<Rightarrow> (None, fs2))))"

text \<open>
  \<^verbatim>\<open>d.glob("*.csv")\<close>: the children of a directory whose name ends with \<^verbatim>\<open>.csv\<close>; nothing
  when \<open>d\<close> is not a directory. \<^verbatim>\<open>p.relative_to(d)\<close> and the text of a relative path.
\<close>

definition glob_csv :: "file_system \<Rightarrow> path \<Rightarrow> path list" where
  "glob_csv fsys d =
     (if is_dir fsys d
      then filter (\<lambda>p. p \<noteq> [] \<and> path_parent p = d \<and> endswith (path_name p) ''.csv'') (map fst fsys)
      else [])"

definition relative_to :: "path \<Rightarrow> path \<Rightarrow> error + path" where
  "relative_to p d =
     (if take (length d) p = d then Inr (drop (length d) p)
      else Inl (ValueError (str_path p @ '' is not in the subpath of '' @ str_path d)))"

fun join_sep :: "string \<Rightarrow> string list \<Rightarrow> string" where
  "join_sep sep [] = []"
| "join_sep sep [x] = x"
| "join_sep sep (x # y # ys) = x @ sep @ join_sep sep (y # ys)"

definition str_rel_path :: "path \<Rightarrow> string" where
  "str_rel_path p = (if p = [] then ''.'' else join_sep ''/'' p)"

definition str_bool :: "bool \<Rightarrow> string" where
  "str_bool b = (if b then ''True'' else ''False'')"

section \<open>The extractor\<close>

text \<open>The loop of lines 119 and 120: the first exception ends it.\<close>

fun extract_all ::
  "(string \<times> content) list \<Rightarrow> path \<Rightarrow> string list \<Rightarrow> file_system \<Rightarrow> error option \<times> file_system" where
  "extract_all entries dest [] fsys = (None, fsys)"
| "extract_all entries dest (f # file_list) fsys =
     (case zip_extract entries f dest fsys of
        (Some e, fs1) \<Rightarrow> (Some e, fs1)
      | (None, fs1) \<Rightarrow> extract_all entries dest file_list fs1)"

definition keep_entry :: "string \<Rightarrow> bool" where
  "keep_entry f = (\<not> startswith f ''__MACOSX'' \<and> \<not> endswith f ''.DS_Store'')"

definition extract_zip :: "path \<Rightarrow> path \<Rightarrow> world \<Rightarrow> (error + path) \<times> world" where
  "extract_zip zip_path extract_to w =
     (let w1 = log_msg INFO
                 (''Extracting '' @ path_name zip_path @ '' to '' @ str_path extract_to @ ''...'') w
      in case mkdir_parents (fs w1) extract_to of
           Inl e \<Rightarrow> (Inl e, w1)
         | Inr fs1 \<Rightarrow>
             (case zip_open fs1 zip_path of
                Inl e \<Rightarrow> (Inl e, w1\<lparr>fs := fs1\<rparr>)
              | Inr entries \<Rightarrow>
                  (let file_list = filter keep_entry (map fst entries)
                   in case extract_all entries extract_to file_list fs1 of
                        (Some e, fs2) \<Rightarrow> (Inl e, w1\<lparr>fs := fs2\<rparr>)
                      | (None, fs2) \<Rightarrow>
                          (let data_dir = extract_to @ [''Data'']
                           in if path_exists fs2 data_dir
                              then (Inr data_dir,
                                    log_msg SUCCESS (''Extracted data to '' @ str_path data_dir)
                                      (w1\<lparr>fs := fs2\<rparr>))
                              else (Inr extract_to,
                                    log_msg WARNING
                                      (''Data directory not found in '' @ str_path extract_to)
                                      (w1\<lparr>fs := fs2\<rparr>))))))"

section \<open>The transformer\<close>

text \<open>Step 2 of \<^verbatim>\<open>process_dataset\<close> (lines 159 to 172); its handler catches every exception.\<close>

definition prevalence_path :: "path \<Rightarrow> path" where
  "prevalence_path data_dir = data_dir @ [''1.Prevalence'', ''Prevalence_Sex_Age_Year_ICD.csv'']"

definition process_prevalence :: "path \<Rightarrow> path \<Rightarrow> world \<Rightarrow> world" where
  "process_prevalence data_dir output_dir w =
     (if path_exists (fs w) (prevalence_path data_dir)
      then (let w1 = log_msg INFO ''Processing prevalence data...'' w
            in case read_csv (fs w1) (prevalence_path data_dir) of
                 Inl e \<Rightarrow> log_msg ERROR (''Error processing prevalence data: '' @ str_error e) w1
               | Inr prevalence_df \<Rightarrow>
                   (let w2 = log_msg INFO
                               (''Loaded prevalence data: ''
                                  @ str_nat (length (df_rows prevalence_df)) @ '' rows, ''
                                  @ str_nat (length (df_columns prevalence_df)) @ '' columns'') w1
                    in case mkdir_parents (fs w2) output_dir of
                         Inl e \<Rightarrow>
                           log_msg ERROR (''Error processing prevalence data: '' @ str_error e) w2
                       | Inr fs3 \<Rightarrow>
                           (let prevalence_output = output_dir @ [''prevalence_data.csv'']
                            in case to_csv fs3 prevalence_df prevalence_output False of
                                 Inl e \<Rightarrow>
                                   log_msg ERROR
                                     (''Error processing prevalence data: '' @ str_error e)
                                     (w2\<lparr>fs := fs3\<rparr>)
                               | Inr fs4 \<Rightarrow>
                                   log_msg SUCCESS
                                     (''Saved processed prevalence data to ''
                                        @ str_path prevalence_output)
                                     (w2\<lparr>fs := fs4\<rparr>))))
      else w)"

text \<open>
  Step 3 (lines 175 to 204). The loop of lines 185 to 195 appends a record for every file
  that loads and logs a warning for every file that does not.
\<close>

record matrix_meta =
  filename :: string
  shape :: "nat \<times> nat"
  file_path :: string

fun process_matrices ::
  "path \<Rightarrow> path list \<Rightarrow> matrix_meta list \<Rightarrow> world \<Rightarrow> matrix_meta list \<times> world" where
  "process_matrices data_dir [] processed w = (processed, w)"
| "process_matrices data_dir (adj_file # adj_files) processed w =
     (case read_csv (fs w) adj_file of
        Inl e \<Rightarrow>
          process_matrices data_dir adj_files processed
            (log_msg WARNING
               (''Error processing '' @ path_name adj_file @ '': '' @ str_error e) w)
      | Inr adj_df \<Rightarrow>
          (case relative_to adj_file data_dir of
             Inl e \<Rightarrow>
               process_matrices data_dir adj_files processed
                 (log_msg WARNING
                    (''Error processing '' @ path_name adj_file @ '': '' @ str_error e) w)
           | Inr rel \<Rightarrow>
               process_matrices data_dir adj_files
                 (processed @ [\<lparr>filename = path_name adj_file, shape = df_shape adj_df,
                                file_path = str_rel_path rel\<rparr>]) w))"

definition str_shape :: "nat \<times> nat \<Rightarrow> string" where
  "str_shape s = ''('' @ str_nat (fst s) @ '', '' @ str_nat (snd s) @ '')''"

definition metadata_frame :: "matrix_meta list \<Rightarrow> data_frame" where
  "metadata_frame processed =
     \<lparr>df_columns = [''filename'', ''shape'', ''file_path''],
      df_rows = map (\<lambda>m. [filename m, str_shape (shape m), file_path m]) processed\<rparr>"

definition process_adjacency :: "path \<Rightarrow> path \<Rightarrow> world \<Rightarrow> (error + unit) \<times> world" where
  "process_adjacency data_dir output_dir w =
     (let adj_matrices_dir = data_dir @ [''3.AdjacencyMatrices'']
      in if path_exists (fs w) adj_matrices_dir
         then (let w1 = log_msg INFO ''Processing adjacency matrices...'' w;
                   adj_files = glob_csv (fs w1) adj_matrices_dir
               in if adj_files \<noteq> []
                  then (let w2 = log_msg INFO
                                   (''Found '' @ str_nat (length adj_files)
                                      @ '' adjacency matrix files'') w1;
                            (processed_matrices, w3) =
                               process_matrices data_dir (take 5 adj_files) [] w2
                        in if processed_matrices \<noteq> []
                           then (let metadata_output =
                                       output_dir @ [''adjacency_matrices_metadata.csv'']
                                 in case to_csv (fs w3) (metadata_frame processed_matrices)
                                           metadata_output False of
                                      Inl e \<Rightarrow> (Inl e, w3)
                                    | Inr fs4 \<Rightarrow>
                                        (Inr (),
                                         log_msg SUCCESS
                                           (''Saved adjacency matrices metadata to ''
                                              @ str_path metadata_output)
                                           (w3\<lparr>fs := fs4\<rparr>)))
                           else (Inr (), w3))
                  else (Inr (), log_msg WARNING ''No adjacency matrix CSV files found'' w1))
         else (Inr (), w))"

text \<open>Step 4 (lines 207 to 218) only logs.\<close>

definition report_structure :: "path \<Rightarrow> path \<Rightarrow> world \<Rightarrow> world" where
  "report_structure data_dir output_dir w =
     (let ex = (\<lambda>p. str_bool (path_exists (fs w) p));
          w1 = log_msg INFO ''Dataset structure:'' w;
          w2 = log_msg INFO (''  - Prevalence data: '' @ ex (prevalence_path data_dir)) w1;
          w3 = log_msg INFO
                 (''  - Adjacency matrices: '' @ ex (data_dir @ [''3.AdjacencyMatrices''])) w2;
          w4 = log_msg INFO
                 (''  - Contingency tables: '' @ ex (data_dir @ [''2.ContingencyTables''])) w3;
          w5 = log_msg INFO
                 (''  - Graph files: '' @ ex (data_dir @ [''4.Graphs-gexffiles''])) w4;
          w6 = log_msg SUCCESS ''Dataset processing complete!'' w5;
          w7 = log_msg INFO (''Processed data saved to: '' @ str_path output_dir) w6
      in log_msg INFO (''Extracted data available at: '' @ str_path data_dir) w7)"

definition missing_input :: "path \<Rightarrow> error" where
  "missing_input input_path = FileNotFoundError (''Input file not found: '' @ str_path input_path)"

definition process_dataset :: "path \<Rightarrow> path \<Rightarrow> path \<Rightarrow> world \<Rightarrow> (error + unit) \<times> world" where
  "process_dataset input_path output_dir extract_to w =
     (if \<not> path_exists (fs w) input_path
      then (Inl (missing_input input_path),
            log_msg INFO
              ''Run 'python -m tapas.dataset download' first to download the dataset.''
              (log_msg ERROR (''Input file not found: '' @ str_path input_path) w))
      else (let w1 = log_msg INFO ''Starting dataset processing...'' w
            in case extract_zip input_path extract_to w1 of
                 (Inl e, w2) \<Rightarrow> (Inl e, w2)
               | (Inr data_dir, w2) \<Rightarrow>
                   (let w3 = process_prevalence data_dir output_dir w2
                    in case process_adjacency data_dir output_dir w3 of
                         (Inl e, w4) \<Rightarrow> (Inl e, w4)
                       | (Inr u, w4) \<Rightarrow> (Inr (), report_structure data_dir output_dir w4))))"

section \<open>The orchestrator\<close>

text \<open>
  \<^verbatim>\<open>run\<close> of \<^verbatim>\<open>pipeline.py\<close>: the opening lines of the log, step 1 (lines 47 to 65) and
  step 2 (lines 68 to 85). An exception of the download or of the processing is logged and
  raised again.
\<close>

definition rule_line :: string where
  "rule_line = replicate 60 CHR ''=''"

definition download_step ::
  "(string \<Rightarrow> bool) \<Rightarrow> string \<Rightarrow> path \<Rightarrow> bool \<Rightarrow> world \<Rightarrow> (error + unit) \<times> world" where
  "download_step host_ok url download_path skip_download w =
     (if \<not> skip_download
      then (let w1 = log_msg INFO
                       (CHR 0x0A # ''[Step 1/2] Downloading dataset from figshare...'') w
            in if path_exists (fs w1) download_path
               then (Inr (),
                     log_msg INFO
                       ''To force re-download, delete the file or use --skip-download=False''
                       (log_msg INFO ''Skipping download, using existing file.''
                          (log_msg WARNING
                             (''File already exists: '' @ str_path download_path) w1)))
               else (case download_from_figshare host_ok url download_path w1 of
                       (Inl e, w2) \<Rightarrow>
                         (Inl e, log_msg ERROR (''Download failed: '' @ str_error e) w2)
                     | (Inr u, w2) \<Rightarrow> (Inr (), log_msg SUCCESS ''Download complete!'' w2)))
      else (let w1 = log_msg INFO
                       (CHR 0x0A # ''[Step 1/2] Skipping download (skip_download=True)'') w
            in if \<not> path_exists (fs w1) download_path
               then (Inl (FileNotFoundError
                            (''Download file not found: '' @ str_path download_path)),
                     log_msg INFO ''Set skip_download=False or download the file first.''
                       (log_msg ERROR
                          (''Download file not found: '' @ str_path download_path) w1))
               else (Inr (), w1)))"

definition processing_step :: "path \<Rightarrow> path \<Rightarrow> path \<Rightarrow> world \<Rightarrow> (error + unit) \<times> world" where
  "processing_step download_path extract_to output_dir w =
     (let w2 = log_msg INFO (CHR 0x0A # ''[Step 2/2] Processing dataset...'') w
      in case process_dataset download_path output_dir extract_to w2 of
           (Inl e, w3) \<Rightarrow> (Inl e, log_msg ERROR (''Processing failed: '' @ str_error e) w3)
         | (Inr u, w3) \<Rightarrow>
             (let w4 = log_msg SUCCESS ''Processing complete!'' w3;
                  w5 = log_msg INFO (CHR 0x0A # rule_line) w4;
                  w6 = log_msg SUCCESS ''Pipeline completed successfully!'' w5;
                  w7 = log_msg INFO rule_line w6;
                  w8 = log_msg INFO (''Raw data: '' @ str_path download_path) w7;
                  w9 = log_msg INFO (''Extracted data: '' @ str_path extract_to) w8
              in (Inr (), log_msg INFO (''Processed data: '' @ str_path output_dir) w9)))"

definition run ::
  "(string \<Rightarrow> bool) \<Rightarrow> string \<Rightarrow> path \<Rightarrow> path \<Rightarrow> path \<Rightarrow> bool \<Rightarrow> world \<Rightarrow> (error + unit) \<times> world" where
  "run host_ok url download_path extract_to output_dir skip_download w =
     (let w0 = log_msg INFO rule_line
                 (log_msg INFO ''Starting Comorbidity Networks Data Pipeline''
                    (log_msg INFO rule_line w))
      in case download_step host_ok url download_path skip_download w0 of
           (Inl e, w1) \<Rightarrow> (Inl e, w1)
         | (Inr u, w1) \<Rightarrow> processing_step download_path extract_to output_dir w1)"

text \<open>
  The body of the \<^verbatim>\<open>try\<close> block of lines 187 to 193 as a value: the record of a file, or
  the exception that loading it raises. With it, the records that a list of files yields
  and the warnings that it leaves in the log.
\<close>

definition matrix_record :: "file_system \<Rightarrow> path \<Rightarrow> path \<Rightarrow> error + matrix_meta" where
  "matrix_record fsys data_dir adj_file =
     (case read_csv fsys adj_file of
        Inl e \<Rightarrow> Inl e
      | Inr adj_df \<Rightarrow>
          (case relative_to adj_file data_dir of
             Inl e \<Rightarrow> Inl e
           | Inr rel \<Rightarrow>
               Inr \<lparr>filename = path_name adj_file, shape = df_shape adj_df,
                    file_path = str_rel_path rel\<rparr>))"

definition loaded_records :: "file_system \<Rightarrow> path \<Rightarrow> path list \<Rightarrow> matrix_meta list" where
  "loaded_records fsys data_dir files =
     List.map_filter
       (\<lambda>f. case matrix_record fsys data_dir f of Inl e \<Rightarrow> None | Inr m \<Rightarrow> Some m) files"

definition load_warning :: "path \<Rightarrow> error \<Rightarrow> level \<times> ustring" where
  "load_warning adj_file e =
     (WARNING, text_of (''Error processing '' @ path_name adj_file @ '': '' @ str_error e))"

definition load_warnings :: "file_system \<Rightarrow> path \<Rightarrow> path list \<Rightarrow> (level \<times> ustring) list" where
  "load_warnings fsys data_dir files =
     List.map_filter
       (\<lambda>f. case matrix_record fsys data_dir f of
              Inl e \<Rightarrow> Some (load_warning f e)
            | Inr m \<Rightarrow> None) files"



section \<open>Properties of the URL functions\<close>














































section \<open>The file identifier\<close>




section \<open>The query parameter comes first\<close>










section \<open>Only the fetcher talks to the network\<close>

lemma requests_log_msg [simp]: "requests (log_msg l m w) = requests w"
  by (simp add: log_msg_def log_text_def)

lemma fs_log_msg [simp]: "fs (log_msg l m w) = fs w"
  by (simp add: log_msg_def log_text_def)

lemma logs_log_msg [simp]: "logs (log_msg l m w) = logs w @ [(l, text_of m)]"
  by (simp add: log_msg_def log_text_def)

lemma requests_extract_zip:
  "extract_zip zip_path extract_to w = (r, w') \<Longrightarrow> requests w' = requests w"
  by (auto simp: extract_zip_def Let_def split: sum.splits prod.splits option.splits if_splits)

lemma requests_process_prevalence:
  "requests (process_prevalence data_dir output_dir w) = requests w"
  by (simp add: process_prevalence_def Let_def split: sum.splits)

lemma requests_process_matrices:
  "process_matrices data_dir files acc w = (recs, w') \<Longrightarrow> requests w' = requests w"
  by (induction data_dir files acc w rule: process_matrices.induct)
    (auto split: sum.splits)

lemma fs_process_matrices:
  "process_matrices data_dir files acc w = (recs, w') \<Longrightarrow> fs w' = fs w"
  by (induction data_dir files acc w rule: process_matrices.induct)
    (auto split: sum.splits)

lemma requests_process_adjacency:
  "process_adjacency data_dir output_dir w = (r, w') \<Longrightarrow> requests w' = requests w"
  by (auto simp: process_adjacency_def Let_def dest: requests_process_matrices
      split: sum.splits prod.splits if_splits)

lemma requests_report_structure:
  "requests (report_structure data_dir output_dir w) = requests w"
  by (simp add: report_structure_def Let_def)

lemma fs_report_structure:
  "fs (report_structure data_dir output_dir w) = fs w"
  by (simp add: report_structure_def Let_def)

lemma requests_process_dataset:
  "process_dataset input_path output_dir extract_to w = (r, w') \<Longrightarrow> requests w' = requests w"
  by (auto simp: process_dataset_def Let_def requests_process_prevalence
        requests_report_structure
      dest!: requests_extract_zip requests_process_adjacency
      split: sum.splits prod.splits if_splits)

lemma requests_processing_step:
  "requests (snd (processing_step download_path extract_to output_dir w)) = requests w"
  by (auto simp: processing_step_def Let_def dest!: requests_process_dataset
      split: sum.splits prod.splits)

section \<open>The returned data directory\<close>

text \<open>
  Claim C8. When \<^verbatim>\<open>extract_zip\<close> returns, it returns \<^verbatim>\<open>extract_to / "Data"\<close> if that
  path exists after the extraction, and a success line is logged; otherwise it returns
  \<^verbatim>\<open>extract_to\<close> itself and the last line of the log is the warning that the data directory
  was not found. A missing folder never makes it raise: whenever the destination can be
  made, the archive opens and its entries extract, the call returns.
\<close>

theorem extract_zip_returns:
  "(extract_zip zip_path extract_to w = (Inr r, w') \<longrightarrow>
      (if path_exists (fs w') (extract_to @ [''Data''])
       then r = extract_to @ [''Data''] \<and> last r = ''Data''
          \<and> last (logs w') =
              (SUCCESS, text_of (''Extracted data to '' @ str_path (extract_to @ [''Data''])))
       else r = extract_to
          \<and> last (logs w') =
              (WARNING, text_of (''Data directory not found in '' @ str_path extract_to))))
   \<and> (mkdir_parents (fs w) extract_to = Inr fs1 \<and> zip_open fs1 zip_path = Inr entries
        \<and> extract_all entries extract_to (filter keep_entry (map fst entries)) fs1 = (None, fs2)
      \<longrightarrow> (\<exists>r w'. extract_zip zip_path extract_to w = (Inr r, w') \<and> fs w' = fs2))"
  by (auto simp: extract_zip_def Let_def split: sum.splits prod.splits option.splits if_splits)

theorem extract_zip_returns_witness:
  "last (logs (snd (extract_zip [''raw'', ''d.zip''] [''ext'']
      \<lparr>fs = [([''raw''], Dir),
              ([''raw'', ''d.zip''], File (Archive [(''Data/'', Blob []), (''Data/a.csv'', Blob ''x'')]))],
        remote = (\<lambda>u. None), requests = [], logs = []\<rparr>))) =
     (SUCCESS, text_of ''Extracted data to /ext/Data'')
   \<and> last (logs (snd (extract_zip [''raw'', ''e.zip''] [''ext'']
      \<lparr>fs = [([''raw''], Dir), ([''raw'', ''e.zip''], File (Archive [(''a.csv'', Blob ''x'')]))],
        remote = (\<lambda>u. None), requests = [], logs = []\<rparr>))) =
     (WARNING, text_of ''Data directory not found in /ext'')
   \<and> fs (snd (extract_zip [''raw'', ''e.zip''] [''ext'']
      \<lparr>fs = [([''raw''], Dir), ([''raw'', ''e.zip''], File (Archive [(''a.csv'', Blob ''x'')]))],
        remote = (\<lambda>u. None), requests = [], logs = []\<rparr>)) =
     [([''raw''], Dir), ([''raw'', ''e.zip''], File (Archive [(''a.csv'', Blob ''x'')])),
      ([''ext''], Dir), ([''ext'', ''a.csv''], File (Blob ''x''))]"
proof -
  let ?w1 = "\<lparr>fs = [([''raw''], Dir),
              ([''raw'', ''d.zip''], File (Archive [(''Data/'', Blob []), (''Data/a.csv'', Blob ''x'')]))],
        remote = (\<lambda>u::ustring. None), requests = [], logs = []\<rparr>"
  let ?w2 = "\<lparr>fs = [([''raw''], Dir), ([''raw'', ''e.zip''], File (Archive [(''a.csv'', Blob ''x'')]))],
        remote = (\<lambda>u::ustring. None), requests = [], logs = []\<rparr>"
  let ?fs2 = "[([''raw''], Dir), ([''raw'', ''e.zip''], File (Archive [(''a.csv'', Blob ''x'')])),
      ([''ext''], Dir), ([''ext'', ''a.csv''], File (Blob ''x''))]"
  have r1: "fst (extract_zip [''raw'', ''d.zip''] [''ext''] ?w1) = Inr [''ext'', ''Data'']"
    by code_simp
  have e1: "path_exists (fs (snd (extract_zip [''raw'', ''d.zip''] [''ext''] ?w1))) ([''ext''] @ [''Data''])"
    by code_simp
  have r2: "fst (extract_zip [''raw'', ''e.zip''] [''ext''] ?w2) = Inr [''ext'']"
    by code_simp
  have e2: "\<not> path_exists (fs (snd (extract_zip [''raw'', ''e.zip''] [''ext''] ?w2))) ([''ext''] @ [''Data''])"
    by code_simp
  have m2: "mkdir_parents (fs ?w2) [''ext''] = Inr [([''raw''], Dir),
      ([''raw'', ''e.zip''], File (Archive [(''a.csv'', Blob ''x'')])), ([''ext''], Dir)]"
    by code_simp
  have z2: "zip_open [([''raw''], Dir),
      ([''raw'', ''e.zip''], File (Archive [(''a.csv'', Blob ''x'')])), ([''ext''], Dir)] [''raw'', ''e.zip'']
      = Inr [(''a.csv'', Blob ''x'')]"
    by code_simp
  have x2: "extract_all [(''a.csv'', Blob ''x'')] [''ext''] (filter keep_entry (map fst [(''a.csv'', Blob ''x'')]))
      [([''raw''], Dir), ([''raw'', ''e.zip''], File (Archive [(''a.csv'', Blob ''x'')])), ([''ext''], Dir)]
      = (None, ?fs2)"
    by code_simp
  have p1: "extract_zip [''raw'', ''d.zip''] [''ext''] ?w1 =
      (Inr [''ext'', ''Data''], snd (extract_zip [''raw'', ''d.zip''] [''ext''] ?w1))"
    using r1 by (metis prod.collapse)
  have p2: "extract_zip [''raw'', ''e.zip''] [''ext''] ?w2 =
      (Inr [''ext''], snd (extract_zip [''raw'', ''e.zip''] [''ext''] ?w2))"
    using r2 by (metis prod.collapse)
  have c1: "last (logs (snd (extract_zip [''raw'', ''d.zip''] [''ext''] ?w1))) =
      (SUCCESS, text_of (''Extracted data to '' @ str_path ([''ext''] @ [''Data''])))"
    using extract_zip_returns[where zip_path = "[''raw'', ''d.zip'']" and extract_to = "[''ext'']"
        and w = ?w1 and r = "[''ext'', ''Data'']"
        and w' = "snd (extract_zip [''raw'', ''d.zip''] [''ext''] ?w1)", THEN conjunct1] p1 e1
    by simp
  have c2: "last (logs (snd (extract_zip [''raw'', ''e.zip''] [''ext''] ?w2))) =
      (WARNING, text_of (''Data directory not found in '' @ str_path [''ext'']))"
    using extract_zip_returns[where zip_path = "[''raw'', ''e.zip'']" and extract_to = "[''ext'']"
        and w = ?w2 and r = "[''ext'']"
        and w' = "snd (extract_zip [''raw'', ''e.zip''] [''ext''] ?w2)", THEN conjunct1] p2 e2
    by simp
  have c3: "fs (snd (extract_zip [''raw'', ''e.zip''] [''ext''] ?w2)) = ?fs2"
    using extract_zip_returns[where zip_path = "[''raw'', ''e.zip'']" and extract_to = "[''ext'']"
        and w = ?w2 and entries = "[(''a.csv'', Blob ''x'')]" and ?fs2.0 = ?fs2
        and ?fs1.0 = "[([''raw''], Dir),
          ([''raw'', ''e.zip''], File (Archive [(''a.csv'', Blob ''x'')])), ([''ext''], Dir)]",
        THEN conjunct2]
      m2 z2 x2
    by auto
  from c1 c2 c3 show ?thesis by (simp add: str_path_def)
qed

section \<open>The orchestrator and the download\<close>

text \<open>
  Claim C6. With the skip flag off and the download path present, \<^verbatim>\<open>run\<close> logs the warning
  that the file exists and goes on to the processing step in a world that differs from the
  first only by log lines; no request is issued in the whole run. With the skip flag on and
  the download path absent, \<^verbatim>\<open>run\<close> raises \<^verbatim>\<open>FileNotFoundError\<close> at once: the world it
  leaves differs from the first only by the six log lines written up to there, none of the
  processing.
\<close>

theorem run_existing_or_skipped:
  "(\<not> skip_download \<and> path_exists (fs w) download_path \<longrightarrow>
      run host_ok url download_path extract_to output_dir skip_download w =
        processing_step download_path extract_to output_dir
          (w\<lparr>logs := logs w @
             [(INFO, text_of rule_line),
              (INFO, text_of ''Starting Comorbidity Networks Data Pipeline''),
              (INFO, text_of rule_line),
              (INFO, text_of (CHR 0x0A # ''[Step 1/2] Downloading dataset from figshare...'')),
              (WARNING, text_of (''File already exists: '' @ str_path download_path)),
              (INFO, text_of ''Skipping download, using existing file.''),
              (INFO,
               text_of ''To force re-download, delete the file or use --skip-download=False'')]\<rparr>)
      \<and> requests (snd (run host_ok url download_path extract_to output_dir skip_download w)) =
          requests w)
   \<and> (skip_download \<and> \<not> path_exists (fs w) download_path \<longrightarrow>
      run host_ok url download_path extract_to output_dir skip_download w =
        (Inl (FileNotFoundError (''Download file not found: '' @ str_path download_path)),
         w\<lparr>logs := logs w @
             [(INFO, text_of rule_line),
              (INFO, text_of ''Starting Comorbidity Networks Data Pipeline''),
              (INFO, text_of rule_line),
              (INFO, text_of (CHR 0x0A # ''[Step 1/2] Skipping download (skip_download=True)'')),
              (ERROR, text_of (''Download file not found: '' @ str_path download_path)),
              (INFO, text_of ''Set skip_download=False or download the file first.'')]\<rparr>))"
proof (intro conjI impI)
  assume a: "\<not> skip_download \<and> path_exists (fs w) download_path"
  then show r: "run host_ok url download_path extract_to output_dir skip_download w =
        processing_step download_path extract_to output_dir
          (w\<lparr>logs := logs w @
             [(INFO, text_of rule_line),
              (INFO, text_of ''Starting Comorbidity Networks Data Pipeline''),
              (INFO, text_of rule_line),
              (INFO, text_of (CHR 0x0A # ''[Step 1/2] Downloading dataset from figshare...'')),
              (WARNING, text_of (''File already exists: '' @ str_path download_path)),
              (INFO, text_of ''Skipping download, using existing file.''),
              (INFO,
               text_of ''To force re-download, delete the file or use --skip-download=False'')]\<rparr>)"
    by (simp add: run_def download_step_def Let_def log_msg_def log_text_def)
  show "requests (snd (run host_ok url download_path extract_to output_dir skip_download w)) =
      requests w"
    unfolding r by (simp add: requests_processing_step)
next
  assume "skip_download \<and> \<not> path_exists (fs w) download_path"
  then show "run host_ok url download_path extract_to output_dir skip_download w =
        (Inl (FileNotFoundError (''Download file not found: '' @ str_path download_path)),
         w\<lparr>logs := logs w @
             [(INFO, text_of rule_line),
              (INFO, text_of ''Starting Comorbidity Networks Data Pipeline''),
              (INFO, text_of rule_line),
              (INFO, text_of (CHR 0x0A # ''[Step 1/2] Skipping download (skip_download=True)'')),
              (ERROR, text_of (''Download file not found: '' @ str_path download_path)),
              (INFO, text_of ''Set skip_download=False or download the file first.'')]\<rparr>)"
    by (simp add: run_def download_step_def Let_def log_msg_def log_text_def)
qed

theorem run_existing_or_skipped_witness:
  "requests (snd (run (\<lambda>h. True) ''https://figshare.com/x?file=5'' [''raw'', ''d.zip''] [''ext''] [''out'']
      False
      \<lparr>fs = [([''raw''], Dir), ([''raw'', ''d.zip''], File (Archive [(''Data/'', Blob [])]))],
        remote = (\<lambda>u. None), requests = [], logs = []\<rparr>)) = []
   \<and> fst (run (\<lambda>h. True) ''https://figshare.com/x?file=5'' [''raw'', ''d.zip''] [''ext''] [''out'']
      True \<lparr>fs = [], remote = (\<lambda>u. None), requests = [], logs = []\<rparr>) =
      Inl (FileNotFoundError ''Download file not found: /raw/d.zip'')"
proof -
  let ?w1 = "\<lparr>fs = [([''raw''], Dir), ([''raw'', ''d.zip''], File (Archive [(''Data/'', Blob [])]))],
        remote = (\<lambda>u::ustring. None), requests = [], logs = []\<rparr>"
  let ?w2 = "\<lparr>fs = [], remote = (\<lambda>u::ustring. None), requests = [], logs = []\<rparr>"
  have e1: "path_exists (fs ?w1) [''raw'', ''d.zip'']"
    by code_simp
  have e2: "\<not> path_exists (fs ?w2) [''raw'', ''d.zip'']"
    by code_simp
  have c1: "requests (snd (run (\<lambda>h. True) ''https://figshare.com/x?file=5'' [''raw'', ''d.zip'']
      [''ext''] [''out''] False ?w1)) = requests ?w1"
    using run_existing_or_skipped[where skip_download = False and w = ?w1
        and download_path = "[''raw'', ''d.zip'']", THEN conjunct1] e1
    by blast
  have c2: "fst (run (\<lambda>h. True) ''https://figshare.com/x?file=5'' [''raw'', ''d.zip'']
      [''ext''] [''out''] True ?w2) =
      Inl (FileNotFoundError (''Download file not found: '' @ str_path [''raw'', ''d.zip'']))"
    using run_existing_or_skipped[where skip_download = True and w = ?w2
        and download_path = "[''raw'', ''d.zip'']" and host_ok = "\<lambda>h. True"
        and url = "''https://figshare.com/x?file=5''" and extract_to = "[''ext'']"
        and output_dir = "[''out'']", THEN conjunct2] e2
    by simp
  from c1 c2 show ?thesis by (simp add: str_path_def)
qed

end
